theory Spec2Isabelle
  imports Complex_Main "HOL-Library.Char_ord" "HOL-Library.List_Lexorder"
begin

section \<open>Numeric cells\<close>

text \<open>
  The tables of \<^verbatim>\<open>develop.py\<close> hold float64 cells. A cell is modelled as an exact
  real number or one of the three special values of IEEE arithmetic. Finite arithmetic is
  exact (no rounding error, no overflow to infinity) and the two signed zeros are one value;
  infinities and NaN arise and propagate as they do in numpy: from a division by zero,
  from a label missing in an aligned series, from operations on them.
\<close>

datatype fl = Fin real | PInf | NInf | NaN

fun fneg :: "fl \<Rightarrow> fl" where
  "fneg (Fin a) = Fin (- a)"
| "fneg PInf = NInf"
| "fneg NInf = PInf"
| "fneg NaN = NaN"

fun fadd :: "fl \<Rightarrow> fl \<Rightarrow> fl" where
  "fadd NaN _ = NaN"
| "fadd _ NaN = NaN"
| "fadd (Fin a) (Fin b) = Fin (a + b)"
| "fadd PInf NInf = NaN"
| "fadd NInf PInf = NaN"
| "fadd PInf _ = PInf"
| "fadd NInf _ = NInf"
| "fadd (Fin a) PInf = PInf"
| "fadd (Fin a) NInf = NInf"

definition fsub :: "fl \<Rightarrow> fl \<Rightarrow> fl" where
  "fsub a b = fadd a (fneg b)"

fun fdiv :: "fl \<Rightarrow> fl \<Rightarrow> fl" where
  "fdiv NaN _ = NaN"
| "fdiv _ NaN = NaN"
| "fdiv (Fin a) (Fin b) =
     (if b \<noteq> 0 then Fin (a / b)
      else if a = 0 then NaN
      else if 0 < a then PInf else NInf)"
| "fdiv (Fin a) PInf = Fin 0"
| "fdiv (Fin a) NInf = Fin 0"
| "fdiv PInf (Fin b) = (if b < 0 then NInf else PInf)"
| "fdiv NInf (Fin b) = (if b < 0 then PInf else NInf)"
| "fdiv PInf PInf = NaN"
| "fdiv PInf NInf = NaN"
| "fdiv NInf PInf = NaN"
| "fdiv NInf NInf = NaN"

text \<open>Comparisons: every comparison with NaN is false.\<close>

fun flt :: "fl \<Rightarrow> fl \<Rightarrow> bool" where
  "flt NaN _ = False"
| "flt _ NaN = False"
| "flt (Fin a) (Fin b) = (a < b)"
| "flt (Fin a) PInf = True"
| "flt (Fin a) NInf = False"
| "flt PInf _ = False"
| "flt NInf NInf = False"
| "flt NInf _ = True"

definition fgt :: "fl \<Rightarrow> fl \<Rightarrow> bool" where
  "fgt a b = flt b a"

fun fle :: "fl \<Rightarrow> fl \<Rightarrow> bool" where
  "fle NaN _ = False"
| "fle _ NaN = False"
| "fle a b = (a = b \<or> flt a b)"

definition isnan :: "fl \<Rightarrow> bool" where
  "isnan a = (a = NaN)"

text \<open>\<^verbatim>\<open>Series.round()\<close> rounds half to even; \<^verbatim>\<open>np.ceil\<close> is the ceiling.\<close>

definition round_half_even :: "real \<Rightarrow> int" where
  "round_half_even x =
     (let f = \<lfloor>x\<rfloor>; d = x - of_int f
      in if d < 1 / 2 then f
         else if 1 / 2 < d then f + 1
         else if even f then f else f + 1)"

fun fround :: "fl \<Rightarrow> fl" where
  "fround (Fin a) = Fin (of_int (round_half_even a))"
| "fround a = a"

fun fceil :: "fl \<Rightarrow> fl" where
  "fceil (Fin a) = Fin (of_int \<lceil>a\<rceil>)"
| "fceil a = a"

text \<open>\<^verbatim>\<open>Series.sum()\<close> skips NaN cells (\<^verbatim>\<open>skipna=True\<close>); the sum of no cells is 0.\<close>

definition fsum :: "fl list \<Rightarrow> fl" where
  "fsum xs = foldl fadd (Fin 0) (filter (\<lambda>x. \<not> isnan x) xs)"

text \<open>
  A series keyed by parcel identifier. Aligning it on a table's index gives NaN at a
  label the series does not have.
\<close>

type_synonym series = "nat \<rightharpoonup> fl"

definition series_at :: "series \<Rightarrow> nat \<Rightarrow> fl" where
  "series_at s k = (case s k of None \<Rightarrow> NaN | Some v \<Rightarrow> v)"

section \<open>Tables\<close>

type_synonym form = string

text \<open>
  The attributes the pro forma gives for one parcel under one form, the columns the
  methods of \<^verbatim>\<open>Developer\<close> read.
\<close>

record attrs =
  max_profit :: fl
  max_profit_far :: fl
  residential_sqft :: fl
  non_residential_sqft :: fl
  stories :: fl

text \<open>
  The \<^verbatim>\<open>form\<close> column of a row: the table has no such column, or the cell is
  Python's \<^verbatim>\<open>None\<close>, or it names a form.
\<close>

datatype form_cell = NoColumn | PyNone | FormName form

record proposal = attrs +
  form :: form_cell

record sized = proposal +
  ave_unit_size :: fl
  parcel_size :: fl
  current_units :: fl
  residential_units :: fl
  job_spaces :: fl

record candidate = sized +
  net_units :: fl

text \<open>
  The columns added after the net units: \<^verbatim>\<open>parcel_id\<close> (by \<^verbatim>\<open>reset_index\<close>),
  \<^verbatim>\<open>max_profit_per_size\<close> (by the default probabilities) and \<^verbatim>\<open>year_built\<close>;
  \<open>None\<close> is a column the table does not have.
\<close>

record building = candidate +
  parcel_id :: "nat option"
  max_profit_per_size :: "fl option"
  year_built :: "int option"

text \<open>A table is the list of its rows, each with its index label.\<close>

type_synonym 'r table = "(nat \<times> 'r) list"

definition index_values :: "'r table \<Rightarrow> nat list" where
  "index_values df = map fst df"

text \<open>A column of a table, as the list of its cells in row order.\<close>

definition column :: "('r \<Rightarrow> 'a) \<Rightarrow> 'r table \<Rightarrow> 'a list" where
  "column c df = map (\<lambda>(i, r). c r) df"

text \<open>
  The feasibility table is, in wide form, one row per parcel with a group of attribute
  columns for each form (the level-0 column labels, in column order, and for each row the
  cells of the forms it has values for, all other cells being NaN); in long form it is one
  row per proposal, the index being the parcel identifier, which may repeat.
\<close>

datatype feasibility = Wide "form list" "(form \<times> attrs) list table" | Long "proposal table"

definition nan_attrs :: attrs where
  "nan_attrs = \<lparr>max_profit = NaN, max_profit_far = NaN, residential_sqft = NaN,
     non_residential_sqft = NaN, stories = NaN\<rparr>"

definition cell_at :: "(form \<times> attrs) list \<Rightarrow> form \<Rightarrow> attrs" where
  "cell_at cells f = (case map_of cells f of None \<Rightarrow> nan_attrs | Some a \<Rightarrow> a)"

definition with_form :: "attrs \<Rightarrow> form_cell \<Rightarrow> proposal" where
  "with_form a fc = attrs.extend a (proposal.fields fc)"

datatype forms = FormsNone | FormsOne form | FormsList "form list"

datatype target = Scalar fl | TargetTable "fl list"

text \<open>
  Exceptions: \<open>ShapeError\<close> stands for the exception pandas raises when a method meets a
  table of the other shape (a long table where the wide one is expected, or the reverse);
  \<open>UserError\<close> is an exception raised inside a function supplied by the caller.
\<close>

datatype error = KeyError | ValueError | OverflowError | ShapeError | UserError

text \<open>The lines \<^verbatim>\<open>pick\<close> prints.\<close>

datatype msg = EmptyWarn | NotEnoughWarn | SumNetUnits int

section \<open>The Developer object\<close>

text \<open>
  The attributes of \<^verbatim>\<open>self\<close> (\<^verbatim>\<open>num_units_to_build\<close> is stored and never read).
  The three series are shared with the caller, so the state returned by a method is also
  what the caller sees of them afterwards.
\<close>

record developer =
  self_feasibility :: feasibility
  self_forms :: forms
  self_target_units :: target
  self_parcel_size :: series
  self_ave_unit_size :: series
  self_current_units :: series
  self_year :: "int option"
  self_bldg_sqft_per_job :: fl
  self_min_unit_size :: fl
  self_max_parcel_size :: fl
  self_drop_after_build :: bool
  self_residential :: bool
  self_keep_suboptimal :: bool

text \<open>\<^verbatim>\<open>len(df) == 0 or df.empty\<close>: no rows, or no columns.\<close>

fun feasibility_empty :: "feasibility \<Rightarrow> bool" where
  "feasibility_empty (Wide cols rows) = (rows = [] \<or> cols = [])"
| "feasibility_empty (Long rows) = (rows = [])"

section \<open>Form reduction\<close>

text \<open>
  \<^verbatim>\<open>_max_form\<close> sorts nothing itself: what it returns depends on how pandas reshapes.
  It stacks the form level into the index, keeps the column \<^verbatim>\<open>colname\<close>, stacks
  again and unstacks the form level: a frame with one row per parcel and one column per
  form, on which \<^verbatim>\<open>idxmax(axis=1)\<close> skips NaN and returns the first column holding the
  row's maximum. Two behaviours of pandas are modelled:
  \<^item> \<open>Pandas2\<close>, pandas up to 2.x: \<^verbatim>\<open>stack\<close> drops the NaN cells, so a parcel without a
    value has no row, and \<^verbatim>\<open>stack\<close> and \<^verbatim>\<open>unstack\<close> sort the labels of the level
    they move, so the columns of the frame are the forms in sorted order, whatever the
    column order of the feasibility table was;
  \<^item> \<open>Pandas3\<close>, pandas 3: the columns keep the order of the table, the NaN cells stay,
    and \<^verbatim>\<open>idxmax\<close> raises ValueError on a row that is all NaN.
\<close>

datatype pandas = Pandas2 | Pandas3

fun scan_order :: "pandas \<Rightarrow> form list \<Rightarrow> form list" where
  "scan_order Pandas2 cols = sort (remdups cols)"
| "scan_order Pandas3 cols = cols"

definition idxmax :: "(form \<times> fl) list \<Rightarrow> form option" where
  "idxmax cs =
     (case filter (\<lambda>c. \<not> isnan (snd c)) cs of
        [] \<Rightarrow> None
      | c # rest \<Rightarrow>
          Some (fst (foldl (\<lambda>best c'. if flt (snd best) (snd c') then c' else best) c rest)))"

text \<open>
  \<^verbatim>\<open>unstack\<close> raises ValueError on duplicate index entries: the wide table is indexed
  uniquely by parcel and its form labels are distinct. Indexing the stacked, column-less
  frame with \<^verbatim>\<open>[[colname]]\<close> raises KeyError. \<^verbatim>\<open>unstack\<close> returns the rows sorted by
  parcel identifier.
\<close>

definition all_nan :: "form list \<Rightarrow> (attrs \<Rightarrow> fl) \<Rightarrow> nat \<times> (form \<times> attrs) list \<Rightarrow> bool" where
  "all_nan cols colname row = list_all (\<lambda>f. isnan (colname (cell_at (snd row) f))) cols"

definition max_form ::
  "pandas \<Rightarrow> form list \<Rightarrow> (form \<times> attrs) list table \<Rightarrow> (attrs \<Rightarrow> fl)
     \<Rightarrow> error + (nat \<times> form) list"
where
  "max_form P cols rows colname =
     (if cols = [] then Inl KeyError
      else if \<not> distinct (index_values rows) \<or> \<not> distinct cols then Inl ValueError
      else if P = Pandas3 \<and> list_ex (all_nan cols colname) rows then Inl ValueError
      else Inr (concat (map (\<lambda>(pid, cells).
             case idxmax (map (\<lambda>f. (f, colname (cell_at cells f))) (scan_order P cols)) of
               None \<Rightarrow> []
             | Some f \<Rightarrow> [(pid, f)]) (sort_key fst rows))))"

text \<open>\<^verbatim>\<open>f[forms]\<close>: the column groups of the listed forms; KeyError if one is missing.\<close>

definition select_forms :: "form list \<Rightarrow> form list option \<Rightarrow> error + form list" where
  "select_forms cols fs =
     (case fs of
        None \<Rightarrow> Inr cols
      | Some l \<Rightarrow> if set l \<subseteq> set cols then Inr l else Inl KeyError)"

text \<open>
  \<^verbatim>\<open>f.stack(level=0).loc[indexes]\<close> followed by \<^verbatim>\<open>reset_index(level=1)\<close>: for each
  pair of a parcel and its best form, the attributes of that form on that parcel, the form
  becoming the column \<^verbatim>\<open>form\<close>.
\<close>

definition stack_loc :: "(form \<times> attrs) list table \<Rightarrow> (nat \<times> form) list \<Rightarrow> proposal table" where
  "stack_loc rows indexes =
     concat (map (\<lambda>(pid, f).
       map (\<lambda>(i, cells). (i, with_form (cell_at cells f) (FormName f)))
         (filter (\<lambda>(i, cells). i = pid) rows)) indexes)"

definition keep_form_with_max_profit ::
  "pandas \<Rightarrow> developer \<Rightarrow> form list option \<Rightarrow> error + proposal table"
where
  "keep_form_with_max_profit P D fs =
     (case self_feasibility D of
        Long _ \<Rightarrow> Inl ShapeError
      | Wide cols rows \<Rightarrow>
          (case select_forms cols fs of
             Inl e \<Rightarrow> Inl e
           | Inr cols' \<Rightarrow>
               if 0 < length rows then
                 (case max_form P cols' rows max_profit of
                    Inl e \<Rightarrow> Inl e
                  | Inr mu \<Rightarrow> Inr (stack_loc rows mu))
               else Inr (stack_loc rows [])))"

text \<open>
  \<^verbatim>\<open>_get_dataframe_of_buildings\<close>: the forms compete when \<^verbatim>\<open>forms\<close> is None or a
  list; a single form selects its column group (every parcel of the table, with NaN cells
  where the form has no value, and no \<^verbatim>\<open>form\<close> column).
\<close>

definition get_dataframe_of_buildings :: "pandas \<Rightarrow> developer \<Rightarrow> error + proposal table" where
  "get_dataframe_of_buildings P D =
     (case self_forms D of
        FormsNone \<Rightarrow> keep_form_with_max_profit P D None
      | FormsList l \<Rightarrow> keep_form_with_max_profit P D (Some l)
      | FormsOne f \<Rightarrow>
          (case self_feasibility D of
             Long _ \<Rightarrow> Inl ShapeError
           | Wide cols rows \<Rightarrow>
               if f \<in> set cols
               then Inr (map (\<lambda>(i, cells). (i, with_form (cell_at cells f) NoColumn)) rows)
               else Inl KeyError))"

section \<open>Feasibility filters and net units\<close>

text \<open>
  \<^verbatim>\<open>self.ave_unit_size[self.ave_unit_size < self.min_unit_size] = self.min_unit_size\<close>
  writes into the series object the caller passed.
\<close>

definition clamp_series :: "series \<Rightarrow> fl \<Rightarrow> series" where
  "clamp_series s m = (\<lambda>k. case s k of None \<Rightarrow> None | Some v \<Rightarrow> Some (if flt v m then m else v))"

definition mk_sized :: "developer \<Rightarrow> nat \<Rightarrow> proposal \<Rightarrow> sized" where
  "mk_sized D i r =
     (let aus = series_at (self_ave_unit_size D) i
      in proposal.extend r (sized.fields
           aus
           (series_at (self_parcel_size D) i)
           (series_at (self_current_units D) i)
           (fround (fdiv (residential_sqft r) aus))
           (fround (fdiv (non_residential_sqft r) (self_bldg_sqft_per_job D)))))"

text \<open>
  \<^verbatim>\<open>_remove_infeasible_buildings\<close>. The three series are aligned on the index of the
  table; the two rounded columns, which the source computes after the filter on the parcel
  size, are computed here with the other three, row by row.
\<close>

definition remove_infeasible_buildings :: "developer \<Rightarrow> proposal table \<Rightarrow> developer \<times> sized table" where
  "remove_infeasible_buildings D df =
     (if length df = 0 then (D, [])
      else
        let df1 = filter (\<lambda>(i, r). fgt (max_profit_far r) (Fin 0)) df;
            D' = D\<lparr>self_ave_unit_size := clamp_series (self_ave_unit_size D) (self_min_unit_size D)\<rparr>;
            df2 = map (\<lambda>(i, r). (i, mk_sized D' i r)) df1;
            df3 = filter (\<lambda>(i, r). flt (parcel_size r) (self_max_parcel_size D')) df2
        in (D', df3))"

definition with_net_units :: "developer \<Rightarrow> sized \<Rightarrow> candidate" where
  "with_net_units D r =
     sized.extend r (candidate.fields
       (if self_residential D then fsub (residential_units r) (current_units r)
        else fsub (job_spaces r) (current_units r)))"

definition calculate_net_units :: "developer \<Rightarrow> sized table \<Rightarrow> candidate table" where
  "calculate_net_units D df =
     (if length df = 0 then []
      else filter (\<lambda>(i, r). fgt (net_units r) (Fin 0)) (map (\<lambda>(i, r). (i, with_net_units D r)) df))"

section \<open>Probabilities and selection\<close>

text \<open>
  In long mode \<^verbatim>\<open>pick\<close> names the index \<^verbatim>\<open>parcel_id\<close> and resets it: the parcel
  identifier becomes a column and the rows are numbered from 0. Otherwise the table keeps
  its index and has no such column.
\<close>

definition reset_index :: "candidate table \<Rightarrow> building table" where
  "reset_index df =
     map (\<lambda>(k, (i, r)). (k, candidate.extend r (building.fields (Some i) None None))) (enumerate 0 df)"

definition keep_index :: "candidate table \<Rightarrow> building table" where
  "keep_index df = map (\<lambda>(i, r). (i, candidate.extend r (building.fields None None None))) df"

text \<open>
  The functions the caller may pass are taken as pure functions of their arguments, which may
  raise. A probability vector is the list of its values, in the order of the rows.
\<close>

type_synonym profit_to_prob_func = "building table \<Rightarrow> error + fl list"

type_synonym custom_selection_func =
  "developer \<Rightarrow> building table \<Rightarrow> fl list \<Rightarrow> target \<Rightarrow> error + nat list"

text \<open>
  The two operations of \<^verbatim>\<open>_calculate_probabilities\<close>, the division of two cells and the
  sum of a column, are parameters of which nothing is assumed, so that what is proved of
  the method holds of float64 arithmetic, with its rounding, overflow and underflow.
  \<open>exact\<close> is the arithmetic without rounding of this theory.
\<close>

record arith =
  quotient :: "fl \<Rightarrow> fl \<Rightarrow> fl"
  column_sum :: "fl list \<Rightarrow> fl"

definition exact :: arith where
  "exact = \<lparr>quotient = fdiv, column_sum = fsum\<rparr>"

text \<open>\<^verbatim>\<open>df.max_profit / df.parcel_size\<close>, the value of the column \<^verbatim>\<open>max_profit_per_size\<close>.\<close>

definition per_size :: "arith \<Rightarrow> building \<Rightarrow> fl" where
  "per_size A r = quotient A (max_profit r) (parcel_size r)"

definition calculate_probabilities ::
  "arith \<Rightarrow> building table \<Rightarrow> profit_to_prob_func option \<Rightarrow> error + (fl list \<times> building table)"
where
  "calculate_probabilities A df profit_to_prob_func =
     (case profit_to_prob_func of
        Some f \<Rightarrow> (case f df of Inl e \<Rightarrow> Inl e | Inr p \<Rightarrow> Inr (p, df))
      | None \<Rightarrow>
          let df' = map (\<lambda>(i, r). (i, r\<lparr>max_profit_per_size := Some (per_size A r)\<rparr>)) df;
              psum = column_sum A (column (per_size A) df)
          in Inr (map (\<lambda>d. quotient A d psum) (column (per_size A) df), df'))"

text \<open>
  The two functions of the module \<^verbatim>\<open>proposal_select\<close>, which draw at random and are
  not part of \<^verbatim>\<open>develop.py\<close>: parameters, of which nothing is assumed.
\<close>

record sampler =
  weighted_random_choice :: "building table \<Rightarrow> fl list \<Rightarrow> fl \<Rightarrow> error + nat list"
  weighted_random_choice_multiparcel :: "building table \<Rightarrow> fl list \<Rightarrow> fl \<Rightarrow> error + nat list"

text \<open>
  \<^verbatim>\<open>_select_buildings\<close>, with the lines it prints. A target that is a table has no
  truth value for \<^verbatim>\<open>self.target_units <= 0\<close>: ValueError.
\<close>

definition select_buildings ::
  "sampler \<Rightarrow> developer \<Rightarrow> building table \<Rightarrow> fl list \<Rightarrow> custom_selection_func option
     \<Rightarrow> msg list \<times> (error + nat list)"
where
  "select_buildings S D df p custom_selection_func =
     (let insufficient_units =
            (case self_target_units D of
               Scalar t \<Rightarrow> flt (fsum (column net_units df)) t
             | TargetTable ts \<Rightarrow> flt (fsum (column net_units df)) (fsum ts));
          printed = (if insufficient_units then [NotEnoughWarn] else [])
      in (printed,
          case custom_selection_func of
            Some f \<Rightarrow> f D df p (self_target_units D)
          | None \<Rightarrow>
              (case self_target_units D of
                 TargetTable ts \<Rightarrow> Inl ValueError
               | Scalar t \<Rightarrow>
                   if fle t (Fin 0) then Inr []
                   else if self_keep_suboptimal D then weighted_random_choice_multiparcel S df p t
                   else if insufficient_units then Inr (index_values df)
                   else weighted_random_choice S df p t)))"

text \<open>\<^verbatim>\<open>DataFrame.drop(labels)\<close>: every row with one of the labels; KeyError if a label is missing.\<close>

fun drop_rows :: "feasibility \<Rightarrow> nat list \<Rightarrow> error + feasibility" where
  "drop_rows (Wide cols rows) idx =
     (if set idx \<subseteq> set (index_values rows)
      then Inr (Wide cols (filter (\<lambda>(i, r). i \<notin> set idx) rows)) else Inl KeyError)"
| "drop_rows (Long rows) idx =
     (if set idx \<subseteq> set (index_values rows)
      then Inr (Long (filter (\<lambda>(i, r). i \<notin> set idx) rows)) else Inl KeyError)"

definition drop_built_buildings :: "developer \<Rightarrow> nat list \<Rightarrow> error + developer" where
  "drop_built_buildings D build_idx =
     (if self_drop_after_build D then
        (case drop_rows (self_feasibility D) build_idx of
           Inl e \<Rightarrow> Inl e
         | Inr f \<Rightarrow> Inr (D\<lparr>self_feasibility := f\<rparr>))
      else Inr D)"

text \<open>\<^verbatim>\<open>df.loc[labels]\<close>: for each label in turn its rows; KeyError if a label is missing.\<close>

definition loc :: "'r table \<Rightarrow> nat list \<Rightarrow> error + 'r table" where
  "loc df idx =
     (if set idx \<subseteq> set (index_values df)
      then Inr (concat (map (\<lambda>l. filter (\<lambda>(i, r). i = l) df) idx)) else Inl KeyError)"

text \<open>
  \<^verbatim>\<open>_prepare_new_buildings\<close>. The last \<^verbatim>\<open>reset_index\<close> discards the index when the
  table has a \<^verbatim>\<open>parcel_id\<close> column and otherwise turns the index, named
  \<^verbatim>\<open>parcel_id\<close>, into that column; the result is the list of the rows.
\<close>

definition prepare_row :: "developer \<Rightarrow> nat \<Rightarrow> building \<Rightarrow> building" where
  "prepare_row D i r =
     r\<lparr>year_built := (case self_year D of None \<Rightarrow> year_built r | Some y \<Rightarrow> Some y),
       form := (case self_forms D of
                  FormsList l \<Rightarrow> form r
                | FormsOne f \<Rightarrow> FormName f
                | FormsNone \<Rightarrow> PyNone),
       stories := fceil (stories r),
       parcel_id := (case parcel_id r of None \<Rightarrow> Some i | Some q \<Rightarrow> Some q)\<rparr>"

definition prepare_new_buildings :: "developer \<Rightarrow> building table \<Rightarrow> nat list \<Rightarrow> error + building list" where
  "prepare_new_buildings D df build_idx =
     (case loc df build_idx of
        Inl e \<Rightarrow> Inl e
      | Inr new_df \<Rightarrow> Inr (map (\<lambda>(i, r). prepare_row D i r) new_df))"

section \<open>pick\<close>

text \<open>
  \<^verbatim>\<open>int(df.net_units.sum())\<close> raises OverflowError on an infinite sum and ValueError on
  NaN; a finite sum is truncated towards zero.
\<close>

definition sum_message :: "candidate table \<Rightarrow> error + msg" where
  "sum_message df =
     (case fsum (column net_units df) of
        Fin s \<Rightarrow> Inr (SumNetUnits (if 0 \<le> s then \<lfloor>s\<rfloor> else \<lceil>s\<rceil>))
      | NaN \<Rightarrow> Inl ValueError
      | _ \<Rightarrow> Inl OverflowError)"

text \<open>
  The table \<^verbatim>\<open>pick\<close> starts from: the reduced wide table, or in long mode
  \<^verbatim>\<open>self.feasibility\<close> itself, whose columns are then read as those of a long table.
\<close>

definition starting_table :: "pandas \<Rightarrow> developer \<Rightarrow> error + proposal table" where
  "starting_table P D =
     (if \<not> self_keep_suboptimal D then get_dataframe_of_buildings P D
      else (case self_feasibility D of Long rows \<Rightarrow> Inr rows | Wide cols rows \<Rightarrow> Inl ShapeError))"

text \<open>
  \<^verbatim>\<open>pick\<close> returns the object as the call leaves it (also when the call raises), the
  lines printed, and the exception raised or the value returned, \<open>None\<close> being Python's
  \<^verbatim>\<open>None\<close>. Its cells are computed without rounding.
\<close>

definition pick ::
  "pandas \<Rightarrow> sampler \<Rightarrow> developer \<Rightarrow> profit_to_prob_func option \<Rightarrow> custom_selection_func option
     \<Rightarrow> developer \<times> msg list \<times> (error + building list option)"
where
  "pick P S D profit_to_prob_func custom_selection_func =
     (if feasibility_empty (self_feasibility D) then (D, [EmptyWarn], Inr None)
      else
        case starting_table P D of
          Inl e \<Rightarrow> (D, [], Inl e)
        | Inr df0 \<Rightarrow>
            let (D1, df1) = remove_infeasible_buildings D df0;
                df2 = calculate_net_units D1 df1
            in if length df2 = 0 then (D1, [EmptyWarn], Inr None)
               else
                 case sum_message df2 of
                   Inl e \<Rightarrow> (D1, [], Inl e)
                 | Inr m \<Rightarrow>
                     let df3 = (if self_keep_suboptimal D1 then reset_index df2 else keep_index df2)
                     in case calculate_probabilities exact df3 profit_to_prob_func of
                          Inl e \<Rightarrow> (D1, [m], Inl e)
                        | Inr (p, df4) \<Rightarrow>
                            (case select_buildings S D1 df4 p custom_selection_func of
                               (printed, Inl e) \<Rightarrow> (D1, m # printed, Inl e)
                             | (printed, Inr build_idx) \<Rightarrow>
                                 (case (if \<not> self_keep_suboptimal D1
                                        then drop_built_buildings D1 build_idx else Inr D1) of
                                    Inl e \<Rightarrow> (D1, m # printed, Inl e)
                                  | Inr D2 \<Rightarrow>
                                      (case prepare_new_buildings D2 df4 build_idx of
                                         Inl e \<Rightarrow> (D2, m # printed, Inl e)
                                       | Inr new_df \<Rightarrow> (D2, m # printed, Inr (Some new_df))))))"

section \<open>The sampler of the specification\<close>

text \<open>
  The random source is an injected primitive: it is given the remaining rows with their
  probabilities and answers with the position of the row drawn.
\<close>

type_synonym draw = "(nat \<times> building \<times> fl) list \<Rightarrow> nat"

text \<open>
  Modelled from the spec: the module \<^verbatim>\<open>proposal_select\<close>, whose functions
  \<^verbatim>\<open>weighted_random_choice\<close> and \<^verbatim>\<open>weighted_random_choice_multiparcel\<close> the method
  \<^verbatim>\<open>_select_buildings\<close> calls, is missing from the sources. The loop is the third case of
  the selection algorithm of the specification (4.2): repeatedly draw one candidate without
  replacement according to \<open>p\<close>, accumulate its \<^verbatim>\<open>net_units\<close>, and stop once the
  running total is at least the target; in long mode, drawing a proposal immediately
  removes every other proposal of the same parcel from the remaining pool and renormalizes
  \<open>p\<close> over what remains.
\<close>

function draw_loop :: "bool \<Rightarrow> draw \<Rightarrow> (nat \<times> building \<times> fl) list \<Rightarrow> fl \<Rightarrow> fl \<Rightarrow> nat list \<Rightarrow> nat list" where
  "draw_loop multi draw pool target running acc =
     (if pool = [] \<or> fle target running then rev acc
      else
        let k = draw pool mod length pool;
            c = pool ! k;
            rest = (if multi
                    then filter (\<lambda>x. parcel_id (fst (snd x)) \<noteq> parcel_id (fst (snd c))) pool
                    else take k pool @ drop (Suc k) pool);
            s = fsum (map (\<lambda>x. snd (snd x)) rest)
        in draw_loop multi draw (map (\<lambda>(i, r, q). (i, r, fdiv q s)) rest) target
             (fadd running (net_units (fst (snd c)))) (fst c # acc))"
  by pat_completeness auto
termination
proof (relation "measure (\<lambda>(multi, draw, pool, target, running, acc). length pool)", goal_cases)
  case 1
  show ?case by simp
next
  case (2 multi draw pool target running acc k c rest s)
  then have ne: "pool \<noteq> []" by simp
  then have kl: "k < length pool" using 2 by simp
  have c: "c \<in> set pool" using kl 2 by simp
  have multi: "length (filter (\<lambda>x. parcel_id (fst (snd x)) \<noteq> parcel_id (fst (snd c))) pool) < length pool"
    using c by (rule length_filter_less) simp
  have single: "length (take k pool @ drop (Suc k) pool) < length pool"
    using kl by simp
  have "length rest < length pool"
    unfolding \<open>rest = _\<close> using multi single by (cases multi) (simp_all only: if_True if_False)
  then show ?case by simp
qed

text \<open>
  Modelled from the spec: the two functions of \<^verbatim>\<open>proposal_select\<close>, each as the
  selection algorithm of the specification (4.2), whose cases are, in this order: if the
  target is at most 0, select nothing (the loop stops at once); if the candidate supply is
  insufficient (the sum of the available \<^verbatim>\<open>net_units\<close> is below the target), select the
  entire candidate pool; otherwise the loop above, without and with the removal of the
  other proposals of the parcel drawn.
\<close>

definition spec_select :: "bool \<Rightarrow> draw \<Rightarrow> building table \<Rightarrow> fl list \<Rightarrow> fl \<Rightarrow> error + nat list" where
  "spec_select multi draw df p target =
     (if fle target (Fin 0) then Inr []
      else if flt (fsum (column net_units df)) target then Inr (index_values df)
      else Inr (draw_loop multi draw (map (\<lambda>((i, r), q). (i, r, q)) (zip df p)) target (Fin 0) []))"

definition spec_sampler :: "draw \<Rightarrow> sampler" where
  "spec_sampler draw =
     \<lparr>weighted_random_choice = spec_select False draw,
      weighted_random_choice_multiparcel = spec_select True draw\<rparr>"

section \<open>The scenarios of the specification\<close>

text \<open>
  Scenario A: three parcels with a single form, profits 100, 200 and 50, parcels of size 1000
  and five net units each (2000 square feet at 400 per unit; the unit size around parcel 1 is
  below the minimum).
\<close>

definition scenario_attrs :: "real \<Rightarrow> attrs" where
  "scenario_attrs profit =
     \<lparr>max_profit = Fin profit, max_profit_far = Fin 1, residential_sqft = Fin 2000,
      non_residential_sqft = Fin 0, stories = Fin (5 / 2)\<rparr>"

definition scenario_a :: "fl \<Rightarrow> developer" where
  "scenario_a tgt =
     \<lparr>self_feasibility = Wide [''residential'']
        [(1, [(''residential'', scenario_attrs 100)]),
         (2, [(''residential'', scenario_attrs 200)]),
         (3, [(''residential'', scenario_attrs 50)])],
      self_forms = FormsOne ''residential'',
      self_target_units = Scalar tgt,
      self_parcel_size = [1 \<mapsto> Fin 1000, 2 \<mapsto> Fin 1000, 3 \<mapsto> Fin 1000],
      self_ave_unit_size = [1 \<mapsto> Fin 100, 2 \<mapsto> Fin 400, 3 \<mapsto> Fin 400],
      self_current_units = [1 \<mapsto> Fin 0, 2 \<mapsto> Fin 0, 3 \<mapsto> Fin 0],
      self_year = Some 2020, self_bldg_sqft_per_job = Fin 400, self_min_unit_size = Fin 400,
      self_max_parcel_size = Fin 200000, self_drop_after_build = True, self_residential = True,
      self_keep_suboptimal = False\<rparr>"

text \<open>
  Scenario D: the forms compete. The columns of the table are ordered residential, office.
  Parcel 1 has both forms, with the profits given; parcel 2 is in the table with no value
  under either form.
\<close>

definition scenario_d_cells :: "real \<Rightarrow> real \<Rightarrow> (form \<times> attrs) list" where
  "scenario_d_cells residential_profit office_profit =
     [(''residential'', scenario_attrs residential_profit),
      (''office'', scenario_attrs office_profit)]"

definition scenario_d :: "real \<Rightarrow> real \<Rightarrow> forms \<Rightarrow> developer" where
  "scenario_d residential_profit office_profit fs =
     (scenario_a (Fin 5))
       \<lparr>self_feasibility := Wide [''residential'', ''office'']
          [(1, scenario_d_cells residential_profit office_profit), (2, [])],
        self_forms := fs\<rparr>"

text \<open>Scenario D without parcel 2: every parcel of the table has a value.\<close>

definition scenario_d_single :: "real \<Rightarrow> real \<Rightarrow> forms \<Rightarrow> developer" where
  "scenario_d_single residential_profit office_profit fs =
     (scenario_d residential_profit office_profit fs)
       \<lparr>self_feasibility := Wide [''residential'', ''office'']
          [(1, scenario_d_cells residential_profit office_profit)]\<rparr>"

text \<open>The row built in scenario D, with profits 50 and 80, when no forms are configured.\<close>

definition scenario_d_built :: building where
  "scenario_d_built =
     \<lparr>max_profit = Fin 80, max_profit_far = Fin 1, residential_sqft = Fin 2000,
      non_residential_sqft = Fin 0, stories = Fin 3, form = PyNone,
      ave_unit_size = Fin 400, parcel_size = Fin 1000, current_units = Fin 0,
      residential_units = Fin 5, job_spaces = Fin 0, net_units = Fin 5,
      parcel_id = Some 1, max_profit_per_size = Some (Fin (2 / 25)), year_built = Some 2020\<rparr>"

text \<open>
  Scenario E: long mode, parcel 1 with two proposals, of forms A and B.
\<close>

definition scenario_e :: "fl \<Rightarrow> developer" where
  "scenario_e tgt =
     (scenario_a tgt)
       \<lparr>self_feasibility := Long
          [(1, with_form (scenario_attrs 100) (FormName ''A'')),
           (1, with_form (scenario_attrs 200) (FormName ''B''))],
        self_forms := FormsNone,
        self_keep_suboptimal := True\<rparr>"

text \<open>
  Variants of scenario A: a feasibility table without rows, and a size limit of 500 that
  excludes every parcel. The row built in scenario A when parcel 1 is drawn.
\<close>

definition scenario_empty :: developer where
  "scenario_empty = (scenario_a (Fin 5))\<lparr>self_feasibility := Wide [''residential''] []\<rparr>"

definition scenario_oversize :: developer where
  "scenario_oversize = (scenario_a (Fin 5))\<lparr>self_max_parcel_size := Fin 500\<rparr>"

text \<open>A single parcel whose best profit is exactly zero.\<close>

definition scenario_zero_profit :: developer where
  "scenario_zero_profit =
     (scenario_a (Fin 5))
       \<lparr>self_feasibility := Wide [''residential''] [(1, [(''residential'', scenario_attrs 0)])]\<rparr>"

definition scenario_a_built :: building where
  "scenario_a_built =
     \<lparr>max_profit = Fin 100, max_profit_far = Fin 1, residential_sqft = Fin 2000,
      non_residential_sqft = Fin 0, stories = Fin 3, form = FormName ''residential'',
      ave_unit_size = Fin 400, parcel_size = Fin 1000, current_units = Fin 0,
      residential_units = Fin 5, job_spaces = Fin 0, net_units = Fin 5,
      parcel_id = Some 1, max_profit_per_size = Some (Fin (1 / 10)), year_built = Some 2020\<rparr>"

text \<open>
  Scenario A with numbers that float64 divides and adds without rounding: profits 64, 128
  and 64 on parcels of size 1024.
\<close>

definition scenario_binary :: developer where
  "scenario_binary =
     (scenario_a (Fin 5))
       \<lparr>self_feasibility := Wide [''residential'']
          [(1, [(''residential'', scenario_attrs 64)]),
           (2, [(''residential'', scenario_attrs 128)]),
           (3, [(''residential'', scenario_attrs 64)])],
        self_parcel_size := [1 \<mapsto> Fin 1024, 2 \<mapsto> Fin 1024, 3 \<mapsto> Fin 1024]\<rparr>"

text \<open>
  The table \<^verbatim>\<open>pick\<close> passes to \<^verbatim>\<open>_calculate_probabilities\<close> in a scenario (with
  pandas up to 2.x, where it matters).
\<close>

definition scenario_pool :: "developer \<Rightarrow> building table" where
  "scenario_pool D =
     (case starting_table Pandas2 D of
        Inl e \<Rightarrow> []
      | Inr df0 \<Rightarrow>
          let (D1, df1) = remove_infeasible_buildings D df0;
              df2 = calculate_net_units D1 df1
          in if self_keep_suboptimal D1 then reset_index df2 else keep_index df2)"

text \<open>A random source that always draws the first remaining row.\<close>

definition draw_first :: draw where
  "draw_first pool = 0"

text \<open>
  Scenario A with that source: the object after a first call of \<^verbatim>\<open>pick\<close>, and the
  result of a second call.
\<close>

definition scenario_a_after :: developer where
  "scenario_a_after = fst (pick Pandas2 (spec_sampler draw_first) (scenario_a (Fin 5)) None None)"

definition scenario_a_second :: "error + building list option" where
  "scenario_a_second =
     snd (snd (pick Pandas2 (spec_sampler draw_first) scenario_a_after None None))"

section \<open>Auxiliary notions\<close>

text \<open>The three conditions a row passes to become a candidate, and rows that agree on them.\<close>

definition feasible_row :: "fl \<Rightarrow> 'a candidate_scheme \<Rightarrow> bool" where
  "feasible_row m r =
     (fgt (net_units r) (Fin 0) \<and> fgt (max_profit_far r) (Fin 0) \<and> flt (parcel_size r) m)"

definition same_cols :: "'a candidate_scheme \<Rightarrow> 'b candidate_scheme \<Rightarrow> bool" where
  "same_cols r r0 =
     (net_units r = net_units r0 \<and> max_profit_far r = max_profit_far r0
      \<and> parcel_size r = parcel_size r0)"



text \<open>The index labels of the feasibility table.\<close>

fun feasibility_index :: "feasibility \<Rightarrow> nat list" where
  "feasibility_index (Wide cols rows) = index_values rows"
| "feasibility_index (Long rows) = index_values rows"

section \<open>Basic facts\<close>

lemmas model_defs =
  pick_def starting_table_def get_dataframe_of_buildings_def keep_form_with_max_profit_def
  select_forms_def max_form_def all_nan_def stack_loc_def idxmax_def cell_at_def nan_attrs_def
  with_form_def remove_infeasible_buildings_def mk_sized_def clamp_series_def series_at_def
  calculate_net_units_def with_net_units_def reset_index_def keep_index_def
  calculate_probabilities_def per_size_def exact_def select_buildings_def
  drop_built_buildings_def loc_def
  prepare_new_buildings_def prepare_row_def sum_message_def index_values_def column_def fsum_def
  isnan_def
  fgt_def fsub_def round_half_even_def
  attrs.defs proposal.defs sized.defs candidate.defs building.defs

lemmas scenario_defs =
  scenario_attrs_def scenario_a_def scenario_d_def scenario_e_def scenario_pool_def
  scenario_empty_def scenario_oversize_def scenario_a_built_def spec_sampler_def spec_select_def
  draw_first_def scenario_binary_def
  scenario_a_after_def scenario_a_second_def scenario_zero_profit_def scenario_d_cells_def
  scenario_d_built_def






lemma remove_infeasible_flags:
  "self_keep_suboptimal (fst (remove_infeasible_buildings D df)) = self_keep_suboptimal D"
  "self_drop_after_build (fst (remove_infeasible_buildings D df)) = self_drop_after_build D"
  "self_max_parcel_size (fst (remove_infeasible_buildings D df)) = self_max_parcel_size D"
  "self_forms (fst (remove_infeasible_buildings D df)) = self_forms D"
  "self_year (fst (remove_infeasible_buildings D df)) = self_year D"
  "self_feasibility (fst (remove_infeasible_buildings D df)) = self_feasibility D"
  by (simp_all add: remove_infeasible_buildings_def Let_def)

lemma remove_infeasible_ave_unit_size:
  "df \<noteq> [] \<Longrightarrow> self_ave_unit_size (fst (remove_infeasible_buildings D df))
     = clamp_series (self_ave_unit_size D) (self_min_unit_size D)"
  by (simp add: remove_infeasible_buildings_def Let_def)

lemma drop_built_ave_unit_size:
  "drop_built_buildings D idx = Inr D' \<Longrightarrow> self_ave_unit_size D' = self_ave_unit_size D"
  by (auto simp: drop_built_buildings_def split: if_splits sum.splits)

lemma sized_rows:
  assumes "(i, r) \<in> set (snd (remove_infeasible_buildings D df))"
  shows "fgt (max_profit_far r) (Fin 0) \<and> flt (parcel_size r) (self_max_parcel_size D)"
  using assms
  by (auto simp: remove_infeasible_buildings_def Let_def mk_sized_def proposal.defs sized.defs split: if_splits)

lemma candidate_rows:
  assumes "(i, r) \<in> set (calculate_net_units D df)"
  shows "fgt (net_units r) (Fin 0) \<and> (\<exists>r0. (i, r0) \<in> set df \<and> max_profit_far r = max_profit_far r0
     \<and> parcel_size r = parcel_size r0)"
  using assms
  by (auto simp: calculate_net_units_def with_net_units_def sized.defs candidate.defs split: if_splits)

lemma net_units_rows:
  assumes "(i, r) \<in> set (calculate_net_units (fst (remove_infeasible_buildings D df0))
      (snd (remove_infeasible_buildings D df0)))"
  shows "feasible_row (self_max_parcel_size D) r"
proof -
  from candidate_rows [OF assms] obtain r0 where
    n: "fgt (net_units r) (Fin 0)" and
    r0: "(i, r0) \<in> set (snd (remove_infeasible_buildings D df0))" and
    eq: "max_profit_far r = max_profit_far r0" "parcel_size r = parcel_size r0"
    by blast
  from sized_rows [OF r0] n eq show ?thesis by (simp add: feasible_row_def)
qed

lemma same_cols_feasible: "same_cols r r0 \<Longrightarrow> feasible_row m r = feasible_row m r0"
  by (simp add: same_cols_def feasible_row_def)

lemma reset_index_rows:
  assumes "(k, r) \<in> set (reset_index df)"
  shows "\<exists>i r0. (i, r0) \<in> set df \<and> same_cols r r0"
proof -
  from assms obtain i r0 where "k < length df" "df ! k = (i, r0)"
    and r: "r = candidate.extend r0 (building.fields (Some i) None None)"
    by (auto simp: reset_index_def in_set_enumerate_eq)
  then have "(i, r0) \<in> set df" by (metis nth_mem)
  moreover have "same_cols r r0" by (simp add: r same_cols_def candidate.defs building.defs)
  ultimately show ?thesis by blast
qed

lemma keep_index_rows:
  assumes "(i, r) \<in> set (keep_index df)"
  shows "\<exists>r0. (i, r0) \<in> set df \<and> same_cols r r0"
  using assms
  by (fastforce simp: keep_index_def same_cols_def candidate.defs building.defs)

lemma probabilities_rows:
  assumes "calculate_probabilities A df f = Inr (p, df')" and "(i, r) \<in> set df'"
  shows "\<exists>r0. (i, r0) \<in> set df \<and> same_cols r r0"
  using assms
  by (fastforce simp: calculate_probabilities_def Let_def same_cols_def split: option.splits sum.splits)

lemma prepare_rows:
  assumes "prepare_new_buildings D df idx = Inr new_df" and "r \<in> set new_df"
  shows "\<exists>i r0. (i, r0) \<in> set df \<and> i \<in> set idx \<and> same_cols r r0"
  using assms
  by (fastforce simp: prepare_new_buildings_def loc_def prepare_row_def same_cols_def split: if_splits)

lemma pick_Some:
  assumes "pick P S D f g = (D', out, Inr (Some new_df))"
  obtains df0 p df4 printed build_idx where
    "\<not> feasibility_empty (self_feasibility D)"
    "starting_table P D = Inr df0"
    "calculate_probabilities exact
       (if self_keep_suboptimal D
        then reset_index (calculate_net_units (fst (remove_infeasible_buildings D df0))
               (snd (remove_infeasible_buildings D df0)))
        else keep_index (calculate_net_units (fst (remove_infeasible_buildings D df0))
               (snd (remove_infeasible_buildings D df0)))) f = Inr (p, df4)"
    "select_buildings S (fst (remove_infeasible_buildings D df0)) df4 p g = (printed, Inr build_idx)"
    "(if \<not> self_keep_suboptimal D
      then drop_built_buildings (fst (remove_infeasible_buildings D df0)) build_idx
      else Inr (fst (remove_infeasible_buildings D df0))) = Inr D'"
    "prepare_new_buildings D' df4 build_idx = Inr new_df"
proof -
  have ne: "\<not> feasibility_empty (self_feasibility D)"
    using assms by (auto simp: pick_def)
  obtain df0 where st: "starting_table P D = Inr df0"
    using assms ne by (cases "starting_table P D") (auto simp: pick_def)
  define D1 where "D1 = fst (remove_infeasible_buildings D df0)"
  define df2 where "df2 = calculate_net_units D1 (snd (remove_infeasible_buildings D df0))"
  define df3 where "df3 = (if self_keep_suboptimal D then reset_index df2 else keep_index df2)"
  have k: "self_keep_suboptimal D1 = self_keep_suboptimal D"
    by (simp add: D1_def remove_infeasible_flags)
  have p1: "pick P S D f g =
     (if length df2 = 0 then (D1, [EmptyWarn], Inr None)
      else case sum_message df2 of
             Inl e \<Rightarrow> (D1, [], Inl e)
           | Inr m \<Rightarrow>
               (case calculate_probabilities exact df3 f of
                  Inl e \<Rightarrow> (D1, [m], Inl e)
                | Inr (p, df4) \<Rightarrow>
                    (case select_buildings S D1 df4 p g of
                       (printed, Inl e) \<Rightarrow> (D1, m # printed, Inl e)
                     | (printed, Inr build_idx) \<Rightarrow>
                         (case (if \<not> self_keep_suboptimal D
                                then drop_built_buildings D1 build_idx else Inr D1) of
                            Inl e \<Rightarrow> (D1, m # printed, Inl e)
                          | Inr D2 \<Rightarrow>
                              (case prepare_new_buildings D2 df4 build_idx of
                                 Inl e \<Rightarrow> (D2, m # printed, Inl e)
                               | Inr new_df \<Rightarrow> (D2, m # printed, Inr (Some new_df)))))))"
    unfolding pick_def Let_def split_beta
    by (simp only: ne st if_False sum.case D1_def [symmetric] df2_def [symmetric] k df3_def [symmetric])
  from assms p1 obtain m where "length df2 \<noteq> 0" and sm: "sum_message df2 = Inr m"
    by (auto split: if_splits sum.splits)
  with assms p1 obtain p df4 where cp: "calculate_probabilities exact df3 f = Inr (p, df4)"
    by (auto split: sum.splits)
  with assms p1 sm \<open>length df2 \<noteq> 0\<close> obtain printed build_idx where
    sb: "select_buildings S D1 df4 p g = (printed, Inr build_idx)"
    by (auto split: sum.splits prod.splits)
  with assms p1 sm cp \<open>length df2 \<noteq> 0\<close> obtain D2 where
    db: "(if \<not> self_keep_suboptimal D then drop_built_buildings D1 build_idx else Inr D1) = Inr D2"
    by (cases "(if \<not> self_keep_suboptimal D then drop_built_buildings D1 build_idx else Inr D1)") auto
  with assms p1 sm cp sb \<open>length df2 \<noteq> 0\<close> have
    "D2 = D'" "prepare_new_buildings D2 df4 build_idx = Inr new_df"
    by (auto split: sum.splits)
  with ne st cp sb db show ?thesis
    using that unfolding df3_def df2_def D1_def by blast
qed

lemma scenario_a_pick:
  "snd (snd (pick Pandas2 (spec_sampler draw_first) (scenario_a (Fin 5)) None None)) = Inr (Some [scenario_a_built])"
  by (simp add: model_defs scenario_defs Let_def)

lemma scenario_oversize_start:
  "starting_table Pandas2 scenario_oversize = Inr (projr (starting_table Pandas2 scenario_oversize))"
  by (simp add: model_defs scenario_defs)

lemma scenario_oversize_filtered:
  "calculate_net_units (fst (remove_infeasible_buildings scenario_oversize (projr (starting_table Pandas2 scenario_oversize))))
     (snd (remove_infeasible_buildings scenario_oversize (projr (starting_table Pandas2 scenario_oversize)))) = []"
  by (simp add: model_defs scenario_defs Let_def)

lemma scenario_a_start:
  "starting_table Pandas2 (scenario_a (Fin 5)) = Inr (projr (starting_table Pandas2 (scenario_a (Fin 5))))"
  by (simp add: model_defs scenario_defs)

lemma scenario_a_start_rows: "projr (starting_table Pandas2 (scenario_a (Fin 5))) \<noteq> []"
  by (simp add: model_defs scenario_defs)

lemma index_map_row: "index_values (map (\<lambda>(i, r). (i, g i r)) df) = index_values df"
  by (induction df) (auto simp: index_values_def)

lemma index_filter: "set (index_values (filter P df)) \<subseteq> set (index_values df)"
  by (auto simp: index_values_def)

lemma stack_loc_index: "set (index_values (stack_loc rows indexes)) \<subseteq> set (index_values rows)"
  by (force simp: stack_loc_def index_values_def)

lemma starting_table_index:
  assumes "\<not> self_keep_suboptimal D" and "starting_table P D = Inr df0"
  shows "set (index_values df0) \<subseteq> set (feasibility_index (self_feasibility D))"
proof (cases "self_feasibility D")
  case (Long rows)
  with assms show ?thesis
    by (auto simp: starting_table_def get_dataframe_of_buildings_def keep_form_with_max_profit_def
        split: forms.splits)
next
  case (Wide cols rows)
  have k: "keep_form_with_max_profit P D fs = Inr df \<Longrightarrow> set (index_values df) \<subseteq> set (index_values rows)" for fs df
    using Wide stack_loc_index [of rows]
    by (auto simp: keep_form_with_max_profit_def split: sum.splits if_splits)
  show ?thesis
  proof (cases "self_forms D")
    case FormsNone
    with assms Wide k [of None df0] show ?thesis
      by (simp add: starting_table_def get_dataframe_of_buildings_def)
  next
    case (FormsList l)
    with assms Wide k [of "Some l" df0] show ?thesis
      by (simp add: starting_table_def get_dataframe_of_buildings_def)
  next
    case (FormsOne f)
    with assms Wide show ?thesis
      by (force simp: starting_table_def get_dataframe_of_buildings_def index_values_def split: if_splits)
  qed
qed

lemma remove_infeasible_index:
  "set (index_values (snd (remove_infeasible_buildings D df))) \<subseteq> set (index_values df)"
proof (cases "length df = 0")
  case True
  then show ?thesis by (simp add: remove_infeasible_buildings_def index_values_def)
next
  case False
  let ?D' = "D\<lparr>self_ave_unit_size := clamp_series (self_ave_unit_size D) (self_min_unit_size D)\<rparr>"
  let ?df1 = "filter (\<lambda>(i, r). fgt (max_profit_far r) (Fin 0)) df"
  let ?df2 = "map (\<lambda>(i, r). (i, mk_sized ?D' i r)) ?df1"
  have "snd (remove_infeasible_buildings D df)
      = filter (\<lambda>(i, r). flt (parcel_size r) (self_max_parcel_size ?D')) ?df2"
    using False by (simp add: remove_infeasible_buildings_def Let_def)
  moreover have "set (index_values ?df2) \<subseteq> set (index_values df)"
    using index_filter [of _ df] by (simp only: index_map_row)
  ultimately show ?thesis
    using index_filter [of "\<lambda>(i, r). flt (parcel_size r) (self_max_parcel_size ?D')" ?df2] by simp
qed

lemma net_units_index: "set (index_values (calculate_net_units D df)) \<subseteq> set (index_values df)"
proof (cases "length df = 0")
  case True
  then show ?thesis by (simp add: calculate_net_units_def index_values_def)
next
  case False
  let ?df1 = "map (\<lambda>(i, r). (i, with_net_units D r)) df"
  have "calculate_net_units D df = filter (\<lambda>(i, r). fgt (net_units r) (Fin 0)) ?df1"
    using False by (simp add: calculate_net_units_def)
  moreover have "index_values ?df1 = index_values df"
    by (rule index_map_row)
  ultimately show ?thesis
    using index_filter [of "\<lambda>(i, r). fgt (net_units r) (Fin 0)" ?df1] by simp
qed

lemma keep_index_row:
  assumes "(i, r) \<in> set (keep_index df)"
  shows "i \<in> set (index_values df) \<and> parcel_id r = None"
  using assms by (force simp: keep_index_def index_values_def candidate.defs building.defs)

lemma probabilities_parcel_id:
  assumes "calculate_probabilities A df f = Inr (p, df')" and "(i, r) \<in> set df'"
  shows "\<exists>r0. (i, r0) \<in> set df \<and> parcel_id r = parcel_id r0"
  using assms
  by (fastforce simp: calculate_probabilities_def Let_def split: option.splits sum.splits)

lemma prepare_parcel_id:
  assumes "prepare_new_buildings D df idx = Inr new_df" and "r \<in> set new_df"
  shows "\<exists>i r0. (i, r0) \<in> set df \<and> i \<in> set idx
     \<and> parcel_id r = (case parcel_id r0 of None \<Rightarrow> Some i | Some q \<Rightarrow> Some q)"
  using assms
  by (fastforce simp: prepare_new_buildings_def loc_def prepare_row_def split: if_splits)

lemma drop_rows_index:
  "drop_rows fe idx = Inr fe' \<Longrightarrow> set (feasibility_index fe') \<inter> set idx = {}"
  by (cases fe) (force simp: index_values_def split: if_splits)+

lemma drop_built_index:
  assumes "drop_built_buildings D idx = Inr D'" and "self_drop_after_build D"
  shows "set (feasibility_index (self_feasibility D')) \<inter> set idx = {}"
  using assms drop_rows_index [of "self_feasibility D" idx]
  by (auto simp: drop_built_buildings_def split: sum.splits)

lemma drop_built_keep_suboptimal:
  "drop_built_buildings D idx = Inr D' \<Longrightarrow> self_keep_suboptimal D' = self_keep_suboptimal D"
  by (auto simp: drop_built_buildings_def split: if_splits sum.splits)

lemma pick_built_parcels:
  assumes nl: "\<not> self_keep_suboptimal D"
    and pk: "pick P S D f g = (D', out, Inr (Some built))"
    and r: "r \<in> set built"
  shows "\<not> self_keep_suboptimal D' \<and>
    (\<exists>i. parcel_id r = Some i \<and> i \<in> set (feasibility_index (self_feasibility D))
      \<and> (self_drop_after_build D \<longrightarrow> i \<notin> set (feasibility_index (self_feasibility D'))))"
proof -
  from pk obtain df0 p df4 printed build_idx where
    st: "starting_table P D = Inr df0"
    and pr: "calculate_probabilities exact
       (if self_keep_suboptimal D
        then reset_index (calculate_net_units (fst (remove_infeasible_buildings D df0))
               (snd (remove_infeasible_buildings D df0)))
        else keep_index (calculate_net_units (fst (remove_infeasible_buildings D df0))
               (snd (remove_infeasible_buildings D df0)))) f = Inr (p, df4)"
    and db: "(if \<not> self_keep_suboptimal D
      then drop_built_buildings (fst (remove_infeasible_buildings D df0)) build_idx
      else Inr (fst (remove_infeasible_buildings D df0))) = Inr D'"
    and pn: "prepare_new_buildings D' df4 build_idx = Inr built"
    by (rule pick_Some)
  let ?D1 = "fst (remove_infeasible_buildings D df0)"
  let ?df2 = "calculate_net_units ?D1 (snd (remove_infeasible_buildings D df0))"
  from db nl have db': "drop_built_buildings ?D1 build_idx = Inr D'" by simp
  from pr nl have pr': "calculate_probabilities exact (keep_index ?df2) f = Inr (p, df4)" by simp
  from prepare_parcel_id [OF pn r] obtain i r4 where
    r4: "(i, r4) \<in> set df4" and ib: "i \<in> set build_idx"
    and pid: "parcel_id r = (case parcel_id r4 of None \<Rightarrow> Some i | Some q \<Rightarrow> Some q)"
    by blast
  from probabilities_parcel_id [OF pr' r4] obtain r3 where
    r3: "(i, r3) \<in> set (keep_index ?df2)" and e3: "parcel_id r4 = parcel_id r3" by blast
  from keep_index_row [OF r3] have i2: "i \<in> set (index_values ?df2)" and n3: "parcel_id r3 = None"
    by simp_all
  from pid e3 n3 have p: "parcel_id r = Some i" by simp
  from i2 net_units_index remove_infeasible_index starting_table_index [OF nl st]
  have inD: "i \<in> set (feasibility_index (self_feasibility D))" by blast
  have k': "\<not> self_keep_suboptimal D'"
    using drop_built_keep_suboptimal [OF db'] nl by (simp add: remove_infeasible_flags)
  have "i \<notin> set (feasibility_index (self_feasibility D'))" if "self_drop_after_build D"
    using drop_built_index [OF db'] that ib by (auto simp: remove_infeasible_flags)
  with p inD k' show ?thesis by blast
qed

lemma scenario_a_second_pick:
  "\<exists>built2. scenario_a_second = Inr (Some built2) \<and> map parcel_id built2 = [Some 2]"
  by (simp add: model_defs scenario_defs Let_def)


















section \<open>The best form of a parcel\<close>





section \<open>Probabilities\<close>




section \<open>Selection\<close>

text \<open>
  C5. For every candidate pool, if the target is a scalar that is at most 0 and no custom
  selection function is supplied, \<^verbatim>\<open>_select_buildings\<close> returns the empty selection and
  raises nothing.
\<close>

theorem nonpositive_target_selects_nothing:
  assumes "self_target_units D = Scalar t" and "fle t (Fin 0)"
  shows "snd (select_buildings S D df p None) = Inr []"
  using assms by (simp add: select_buildings_def Let_def)

theorem nonpositive_target_selects_nothing_witness:
  "self_target_units (scenario_a (Fin 0)) = Scalar (Fin 0) \<and> fle (Fin 0) (Fin 0)
   \<and> snd (select_buildings (spec_sampler draw_first) (scenario_a (Fin 0))
        (scenario_pool (scenario_a (Fin 0))) [] None) = Inr []"
  using nonpositive_target_selects_nothing [of "scenario_a (Fin 0)" "Fin 0" "spec_sampler draw_first"
      "scenario_pool (scenario_a (Fin 0))" "[]"]
  by (simp add: scenario_a_def)




section \<open>pick: results and effects\<close>

text \<open>
  C1. Whatever the feasibility table, the configuration, the sampler and the functions
  supplied, every row of the table \<^verbatim>\<open>pick\<close> returns (when it returns one) has
  \<^verbatim>\<open>net_units > 0\<close>, \<^verbatim>\<open>max_profit_far > 0\<close> and
  \<^verbatim>\<open>parcel_size < max_parcel_size\<close>.
\<close>

theorem built_rows_feasible:
  assumes "snd (snd (pick P S D profit_to_prob_func custom_selection_func)) = Inr (Some new_df)"
    and "r \<in> set new_df"
  shows "fgt (net_units r) (Fin 0) \<and> fgt (max_profit_far r) (Fin 0)
     \<and> flt (parcel_size r) (self_max_parcel_size D)"
proof -
  let ?m = "self_max_parcel_size D"
  obtain D' out where pk: "pick P S D profit_to_prob_func custom_selection_func = (D', out, Inr (Some new_df))"
    using assms(1) by (metis prod.collapse)
  from pk obtain df0 p df4 build_idx where
    pr: "calculate_probabilities exact
       (if self_keep_suboptimal D
        then reset_index (calculate_net_units (fst (remove_infeasible_buildings D df0))
               (snd (remove_infeasible_buildings D df0)))
        else keep_index (calculate_net_units (fst (remove_infeasible_buildings D df0))
               (snd (remove_infeasible_buildings D df0)))) profit_to_prob_func = Inr (p, df4)"
    and pn: "prepare_new_buildings D' df4 build_idx = Inr new_df"
    by (rule pick_Some)
  from prepare_rows [OF pn assms(2)] obtain i r4 where
    r4: "(i, r4) \<in> set df4" and e4: "feasible_row ?m r = feasible_row ?m r4"
    using same_cols_feasible by blast
  from probabilities_rows [OF pr r4] obtain r3 where
    r3: "(i, r3) \<in> set (if self_keep_suboptimal D
        then reset_index (calculate_net_units (fst (remove_infeasible_buildings D df0))
               (snd (remove_infeasible_buildings D df0)))
        else keep_index (calculate_net_units (fst (remove_infeasible_buildings D df0))
               (snd (remove_infeasible_buildings D df0))))"
    and e3: "feasible_row ?m r4 = feasible_row ?m r3"
    using same_cols_feasible by blast
  have "\<exists>j r2. (j, r2) \<in> set (calculate_net_units (fst (remove_infeasible_buildings D df0))
               (snd (remove_infeasible_buildings D df0))) \<and> feasible_row ?m r3 = feasible_row ?m r2"
  proof (cases "self_keep_suboptimal D")
    case True
    with r3 show ?thesis using reset_index_rows [of i r3] same_cols_feasible by (simp only: if_True) blast
  next
    case False
    with r3 show ?thesis using keep_index_rows [of i r3] same_cols_feasible by (simp only: if_False) blast
  qed
  then obtain j r2 where
    r2: "(j, r2) \<in> set (calculate_net_units (fst (remove_infeasible_buildings D df0))
               (snd (remove_infeasible_buildings D df0)))"
    and e2: "feasible_row ?m r3 = feasible_row ?m r2" by blast
  from net_units_rows [OF r2] e2 e3 e4 have "feasible_row ?m r" by simp
  then show ?thesis by (simp add: feasible_row_def)
qed


theorem built_rows_feasible_witness:
  "snd (snd (pick Pandas2 (spec_sampler draw_first) (scenario_a (Fin 5)) None None)) = Inr (Some [scenario_a_built])
   \<and> scenario_a_built \<in> set [scenario_a_built]
   \<and> fgt (net_units scenario_a_built) (Fin 0) \<and> fgt (max_profit_far scenario_a_built) (Fin 0)
   \<and> flt (parcel_size scenario_a_built) (self_max_parcel_size (scenario_a (Fin 5)))"
proof -
  have m: "scenario_a_built \<in> set [scenario_a_built]" by simp
  show ?thesis
    using built_rows_feasible [OF scenario_a_pick m] scenario_a_pick by simp
qed

text \<open>
  C6. In non-long mode with \<^verbatim>\<open>drop_after_build\<close>, when \<^verbatim>\<open>pick\<close> returns a table, the
  parcel of every row built is no longer in the index of \<^verbatim>\<open>self.feasibility\<close>, and no later
  call of \<^verbatim>\<open>pick\<close> on the object as the first call left it, with whatever sampler and
  functions, builds on a parcel the first call built on.
\<close>

theorem built_parcels_dropped:
  assumes "\<not> self_keep_suboptimal D" and "self_drop_after_build D"
    and "pick P S D f g = (D1, out1, Inr (Some built1))"
  shows "(\<forall>r\<in>set built1. \<exists>i. parcel_id r = Some i
            \<and> i \<notin> set (feasibility_index (self_feasibility D1)))
     \<and> (\<forall>P' S' f' g' D2 out2 built2.
            pick P' S' D1 f' g' = (D2, out2, Inr (Some built2))
            \<longrightarrow> set (map parcel_id built1) \<inter> set (map parcel_id built2) = {})"
proof (intro conjI allI impI)
  show "\<forall>r\<in>set built1. \<exists>i. parcel_id r = Some i
            \<and> i \<notin> set (feasibility_index (self_feasibility D1))"
    using pick_built_parcels [OF assms(1) assms(3)] assms(2) by blast
next
  fix P' S' f' g' D2 out2 built2
  assume second: "pick P' S' D1 f' g' = (D2, out2, Inr (Some built2))"
  show "set (map parcel_id built1) \<inter> set (map parcel_id built2) = {}"
  proof (rule ccontr)
    assume "set (map parcel_id built1) \<inter> set (map parcel_id built2) \<noteq> {}"
    then obtain r1 r2 where r1: "r1 \<in> set built1" and r2: "r2 \<in> set built2"
      and eq: "parcel_id r1 = parcel_id r2" by auto
    from pick_built_parcels [OF assms(1) assms(3) r1] assms(2) obtain i where
      k1: "\<not> self_keep_suboptimal D1" and i1: "parcel_id r1 = Some i"
      and out: "i \<notin> set (feasibility_index (self_feasibility D1))" by blast
    from pick_built_parcels [OF k1 second r2] obtain j where
      j2: "parcel_id r2 = Some j" and inn: "j \<in> set (feasibility_index (self_feasibility D1))"
      by blast
    from eq i1 j2 have "i = j" by simp
    with out inn show False by simp
  qed
qed

theorem built_parcels_dropped_witness:
  "\<not> self_keep_suboptimal (scenario_a (Fin 5)) \<and> self_drop_after_build (scenario_a (Fin 5))
   \<and> snd (snd (pick Pandas2 (spec_sampler draw_first) (scenario_a (Fin 5)) None None))
       = Inr (Some [scenario_a_built])
   \<and> parcel_id scenario_a_built = Some 1
   \<and> 1 \<notin> set (feasibility_index (self_feasibility scenario_a_after))
   \<and> (\<exists>built2. scenario_a_second = Inr (Some built2) \<and> map parcel_id built2 = [Some 2]
        \<and> set (map parcel_id [scenario_a_built]) \<inter> set (map parcel_id built2) = {})"
proof -
  let ?S = "spec_sampler draw_first"
  have nk: "\<not> self_keep_suboptimal (scenario_a (Fin 5))" by (simp add: scenario_a_def)
  have da: "self_drop_after_build (scenario_a (Fin 5))" by (simp add: scenario_a_def)
  have pk: "pick Pandas2 ?S (scenario_a (Fin 5)) None None
      = (scenario_a_after, fst (snd (pick Pandas2 ?S (scenario_a (Fin 5)) None None)), Inr (Some [scenario_a_built]))"
    unfolding scenario_a_after_def using scenario_a_pick by (simp only: prod_eq_iff fst_conv snd_conv)
  note T = built_parcels_dropped [OF nk da pk]
  from scenario_a_second_pick obtain built2 where
    b2: "scenario_a_second = Inr (Some built2)" and p2: "map parcel_id built2 = [Some 2]"
    by (elim exE conjE)
  have pk2: "pick Pandas2 ?S scenario_a_after None None
      = (fst (pick Pandas2 ?S scenario_a_after None None), fst (snd (pick Pandas2 ?S scenario_a_after None None)),
         Inr (Some built2))"
    using b2 unfolding scenario_a_second_def by (simp only: prod_eq_iff fst_conv snd_conv)
  have dis: "set (map parcel_id [scenario_a_built]) \<inter> set (map parcel_id built2) = {}"
    using T [THEN conjunct2, rule_format, OF pk2] .
  have one: "parcel_id scenario_a_built = Some 1" by (simp add: scenario_a_built_def)
  have "\<exists>i. parcel_id scenario_a_built = Some i
      \<and> i \<notin> set (feasibility_index (self_feasibility scenario_a_after))"
    using T [THEN conjunct1, rule_format, of scenario_a_built] by simp
  with one have out: "1 \<notin> set (feasibility_index (self_feasibility scenario_a_after))"
    by simp
  show ?thesis
    using nk da scenario_a_pick one out b2 p2 dis by (intro conjI exI [of _ built2]) simp_all
qed

text \<open>
  C8. When the feasibility table is empty, or the table is empty after form reduction, the
  feasibility filters and the filter on net units, \<^verbatim>\<open>pick\<close> prints the warning and
  returns \<^verbatim>\<open>None\<close>, raising nothing.
\<close>

theorem empty_pool_returns_none:
  assumes "feasibility_empty (self_feasibility D)
     \<or> (starting_table P D = Inr df0
        \<and> calculate_net_units (fst (remove_infeasible_buildings D df0))
             (snd (remove_infeasible_buildings D df0)) = [])"
  shows "snd (pick P S D profit_to_prob_func custom_selection_func) = ([EmptyWarn], Inr None)"
  using assms by (auto simp: pick_def Let_def split: prod.splits)


theorem empty_pool_returns_none_witness:
  "feasibility_empty (self_feasibility scenario_empty)
   \<and> snd (pick Pandas2 (spec_sampler draw_first) scenario_empty None None) = ([EmptyWarn], Inr None)
   \<and> starting_table Pandas2 scenario_oversize = Inr (projr (starting_table Pandas2 scenario_oversize))
   \<and> calculate_net_units (fst (remove_infeasible_buildings scenario_oversize (projr (starting_table Pandas2 scenario_oversize))))
        (snd (remove_infeasible_buildings scenario_oversize (projr (starting_table Pandas2 scenario_oversize)))) = []
   \<and> snd (pick Pandas2 (spec_sampler draw_first) scenario_oversize None None) = ([EmptyWarn], Inr None)"
proof -
  have e: "feasibility_empty (self_feasibility scenario_empty)"
    by (simp add: scenario_defs)
  have 1: "snd (pick Pandas2 (spec_sampler draw_first) scenario_empty None None) = ([EmptyWarn], Inr None)"
    using empty_pool_returns_none [where D = scenario_empty and P = Pandas2] e by blast
  have 2: "snd (pick Pandas2 (spec_sampler draw_first) scenario_oversize None None) = ([EmptyWarn], Inr None)"
    using empty_pool_returns_none [where D = scenario_oversize and P = Pandas2
        and ?df0.0 = "projr (starting_table Pandas2 scenario_oversize)"]
      scenario_oversize_start scenario_oversize_filtered by blast
  show ?thesis using e 1 2 scenario_oversize_start scenario_oversize_filtered by simp
qed

text \<open>
  C10. In long mode (\<^verbatim>\<open>keep_suboptimal\<close>) a call of \<^verbatim>\<open>pick\<close>, however it ends, leaves
  \<^verbatim>\<open>self.feasibility\<close> as it was, whatever \<^verbatim>\<open>drop_after_build\<close> says.
\<close>

theorem long_mode_keeps_feasibility:
  assumes "self_keep_suboptimal D"
  shows "self_feasibility (fst (pick P S D profit_to_prob_func custom_selection_func)) = self_feasibility D"
proof -
  have k: "self_keep_suboptimal (fst (remove_infeasible_buildings D df))" for df
    using assms by (simp add: remove_infeasible_flags)
  have f: "self_feasibility (fst (remove_infeasible_buildings D df)) = self_feasibility D" for df
    by (rule remove_infeasible_flags)
  show ?thesis
    by (simp add: pick_def Let_def split_beta k f split: sum.splits)
qed


theorem long_mode_keeps_feasibility_witness:
  "self_keep_suboptimal (scenario_e (Fin 5))
   \<and> self_drop_after_build (scenario_e (Fin 5))
   \<and> self_feasibility (fst (pick Pandas2 (spec_sampler draw_first) (scenario_e (Fin 5)) None None))
       = self_feasibility (scenario_e (Fin 5))"
proof -
  have k: "self_keep_suboptimal (scenario_e (Fin 5))" by (simp add: scenario_defs)
  have d: "self_drop_after_build (scenario_e (Fin 5))" by (simp add: scenario_defs)
  show ?thesis using long_mode_keeps_feasibility [OF k] k d by simp
qed

text \<open>
  C9, as amended. A call of \<^verbatim>\<open>pick\<close> that gets past the two guards on an empty table
  (the feasibility table is not empty, and neither is the table \<^verbatim>\<open>pick\<close> starts from)
  leaves, however it ends, the series \<^verbatim>\<open>ave_unit_size\<close> with every value below
  \<^verbatim>\<open>min_unit_size\<close> replaced by \<^verbatim>\<open>min_unit_size\<close> and every other value as it was.
\<close>

theorem pick_clamps_ave_unit_size:
  assumes "\<not> feasibility_empty (self_feasibility D)"
    and "starting_table P D = Inr df0" and "df0 \<noteq> []"
  shows "self_ave_unit_size (fst (pick P S D profit_to_prob_func custom_selection_func)) k
     = (case self_ave_unit_size D k of
          None \<Rightarrow> None
        | Some v \<Rightarrow> Some (if flt v (self_min_unit_size D) then self_min_unit_size D else v))"
proof -
  have "self_ave_unit_size (fst (pick P S D profit_to_prob_func custom_selection_func))
      = clamp_series (self_ave_unit_size D) (self_min_unit_size D)"
    using assms remove_infeasible_ave_unit_size [OF assms(3), of D]
    by (auto simp: pick_def Let_def split_beta split: sum.splits dest: drop_built_ave_unit_size)
  then show ?thesis by (simp add: clamp_series_def)
qed

theorem pick_clamps_ave_unit_size_witness:
  "\<not> feasibility_empty (self_feasibility (scenario_a (Fin 5)))
   \<and> starting_table Pandas2 (scenario_a (Fin 5)) = Inr (projr (starting_table Pandas2 (scenario_a (Fin 5))))
   \<and> projr (starting_table Pandas2 (scenario_a (Fin 5))) \<noteq> []
   \<and> self_ave_unit_size (scenario_a (Fin 5)) 1 = Some (Fin 100)
   \<and> self_ave_unit_size (fst (pick Pandas2 (spec_sampler draw_first) (scenario_a (Fin 5)) None None)) 1
       = Some (Fin 400)"
proof -
  have ne: "\<not> feasibility_empty (self_feasibility (scenario_a (Fin 5)))"
    by (simp add: scenario_defs)
  have v: "self_ave_unit_size (scenario_a (Fin 5)) 1 = Some (Fin 100)"
    by (simp add: scenario_defs)
  have m: "self_min_unit_size (scenario_a (Fin 5)) = Fin 400"
    by (simp add: scenario_defs)
  show ?thesis
    using pick_clamps_ave_unit_size [OF ne scenario_a_start scenario_a_start_rows, of "spec_sampler draw_first" None None 1]
      ne scenario_a_start scenario_a_start_rows v m
    by simp
qed

text \<open>
  C9 as stated fails on an empty feasibility table: \<^verbatim>\<open>pick\<close> returns before the
  series is touched, and the unit size 100 around parcel 1 stays below the minimum of 400.
\<close>

theorem empty_table_not_clamped_counterexample:
  "self_ave_unit_size scenario_empty 1 = Some (Fin 100)
   \<and> flt (Fin 100) (self_min_unit_size scenario_empty)
   \<and> self_ave_unit_size (fst (pick Pandas2 (spec_sampler draw_first) scenario_empty None None)) 1
       = Some (Fin 100)"
  by (simp add: pick_def scenario_defs)

text \<open>
  C7. The claim has the \<^verbatim>\<open>form\<close> column set from the configured form only when a single
  form was configured. In scenario D with no forms configured the forms compete, as they do
  for a list (\<^verbatim>\<open>_get_dataframe_of_buildings\<close> treats None and a list alike), and the
  reduced table gives parcel 1 the form office; \<^verbatim>\<open>_prepare_new_buildings\<close>, which tests
  for a list only, then overwrites the column with None. The same happens with pandas 3 on
  the table without parcel 2.
\<close>

theorem forms_none_overwrites_form:
  "self_forms (scenario_d 50 80 FormsNone) = FormsNone
   \<and> get_dataframe_of_buildings Pandas2 (scenario_d 50 80 FormsNone)
       = Inr [(1, with_form (scenario_attrs 80) (FormName ''office''))]
   \<and> snd (snd (pick Pandas2 (spec_sampler draw_first) (scenario_d 50 80 FormsNone) None None))
       = Inr (Some [scenario_d_built])
   \<and> get_dataframe_of_buildings Pandas3 (scenario_d_single 50 80 FormsNone)
       = Inr [(1, with_form (scenario_attrs 80) (FormName ''office''))]
   \<and> snd (snd (pick Pandas3 (spec_sampler draw_first) (scenario_d_single 50 80 FormsNone) None None))
       = Inr (Some [scenario_d_built])
   \<and> form scenario_d_built = PyNone"
  by (simp add: model_defs scenario_defs scenario_d_single_def Let_def)


end
